theory Spec2Isabelle
  imports Complex_Main
begin

section \<open>Wind loads after CIRSOC 102: the pressure engine of ZondaPro\<close>

text \<open>
  Python floats are read as real numbers: \<open>x ** 0.5\<close> of a non-negative float is
  \<open>sqrt x\<close>, \<open>np.e ** x\<close> is \<open>exp x\<close>, \<open>math.log10\<close> is \<open>log 10\<close> and
  \<open>math.atan\<close> is \<open>arctan\<close>. Every exception of the source is a value of the type
  \<open>error\<close>; a function that can raise returns \<open>error + 'a\<close>, with \<open>Inl\<close> the exception.
\<close>

subsection \<open>Exceptions and enumerations\<close>

text \<open>
  Modelled from the spec: the exception class \<open>ErrorLineamientos\<close> of
  \<open>zonda/excepciones.py\<close>, a file that is not among the sources. Section 7 of the
  specification has the normative non-applicability error as a kind of its own, disjoint
  from the input-validation errors, so it is a constructor of its own here.
  \<open>ValueError\<close>, \<open>ZeroDivisionError\<close> and \<open>TypeError\<close> are Python's own exceptions.
  \<open>ComplexResult\<close> marks a float power with a negative base, which Python evaluates to
  a complex number; its arithmetic is not followed any further.
\<close>

datatype error = ValueError | ZeroDivisionError | TypeError | ErrorLineamientos | ComplexResult

datatype Cerramiento = CERRADO | PARCIALMENTE_CERRADO | ABIERTO

datatype TipoCubierta = PLANA | UN_AGUA | DOS_AGUAS

datatype PosicionBloqueoCubierta = ALERO_BAJO | ALERO_ALTO

datatype Flexibilidad = RIGIDA | FLEXIBLE

datatype CategoriaExposicion = A | B | C | D

datatype DireccionTopografia = BARLOVENTO | SOTAVENTO

datatype TipoTerrenoTopografia = LOMA_BIDIMENSIONAL | ESCARPA_BIDIMENSIONAL | COLINA_TRIDIMENSIONAL

subsection \<open>Building pressures (sse102/cirsoc/presiones/edificio.py)\<close>

text \<open>\<open>presion_minima\<close>: \<open>np.sign(presion) * max(500, abs(presion))\<close>.\<close>

definition presion_minima :: "real \<Rightarrow> real" where
  "presion_minima presion = sgn presion * max 500 \<bar>presion\<bar>"

text \<open>The named tuple \<open>PresionesEdificio(pos, neg)\<close>.\<close>

record PresionesEdificio =
  pos :: real
  neg :: real

text \<open>
  The state of a \<open>CubiertaSprfvMetodoDireccional\<close> that the internal pressure reads.
  \<open>presion_velocidad_media\<close> is the value of the property of that name, the velocity
  pressure at the mean roof height.
\<close>

record CubiertaSprfvMetodoDireccional =
  cerramiento :: Cerramiento
  reducir_gcpi :: bool
  aberturas_totales :: "real option"
  volumen_interno :: "real option"
  presion_velocidad_media :: real

text \<open>
  \<open>factor_reduccion_gcpi\<close>. The test \<open>self.volumen_interno is not None and
  self.aberturas_totales\<close> is false for a volume of \<open>None\<close> and for openings of
  \<open>None\<close> or zero. \<open>(1 + v / 6954 / a) ** 0.5\<close> is zero for a zero base, so that the
  division by it raises, and complex for a negative base, so that \<open>min\<close> raises
  \<open>TypeError\<close> on comparing it.
\<close>

definition factor_reduccion_gcpi :: "CubiertaSprfvMetodoDireccional \<Rightarrow> error + real" where
  "factor_reduccion_gcpi self =
     (if reducir_gcpi self then
        (if cerramiento self = PARCIALMENTE_CERRADO then
           (case volumen_interno self of
              None \<Rightarrow> Inr 1
            | Some v \<Rightarrow>
                (case aberturas_totales self of
                   None \<Rightarrow> Inr 1
                 | Some a \<Rightarrow>
                     if a = 0 then Inr 1
                     else if 1 + v / 6954 / a = 0 then Inl ZeroDivisionError
                     else if 1 + v / 6954 / a < 0 then Inl TypeError
                     else Inr (min (0.5 * (1 + 1 / sqrt (1 + v / 6954 / a))) 1)))
         else Inr 1)
      else Inr 1)"

text \<open>The table \<open>cerramiento_gcpi\<close> of the property \<open>gcpi\<close>.\<close>

fun cerramiento_gcpi :: "Cerramiento \<Rightarrow> real" where
  "cerramiento_gcpi CERRADO = 0.18"
| "cerramiento_gcpi PARCIALMENTE_CERRADO = 0.55"
| "cerramiento_gcpi ABIERTO = 0.0"

definition gcpi :: "CubiertaSprfvMetodoDireccional \<Rightarrow> error + real" where
  "gcpi self =
     (case factor_reduccion_gcpi self of
        Inl e \<Rightarrow> Inl e
      | Inr f \<Rightarrow> Inr (cerramiento_gcpi (cerramiento self) * f))"

text \<open>The static method \<open>_presiones\<close> of \<open>CubiertaSprfvMetodoDireccional\<close>.\<close>

definition presiones ::
  "real \<Rightarrow> real \<Rightarrow> real \<Rightarrow> real \<Rightarrow> real \<Rightarrow> bool \<Rightarrow> PresionesEdificio" where
  "presiones presion_velocidad cp factor_rafaga presion_velocidad_media' gcpi'
     considerar_presion_minima =
     (let q1 = presion_velocidad * factor_rafaga * cp;
          q2 = presion_velocidad_media' * gcpi';
          q_pos = q1 - q2;
          q_neg = q1 + q2
      in if considerar_presion_minima
         then \<lparr>pos = presion_minima q_pos, neg = presion_minima q_neg\<rparr>
         else \<lparr>pos = q_pos, neg = q_neg\<rparr>)"

text \<open>
  \<open>_presion_media_parcial\<close>: \<open>_presiones\<close> with \<open>presion_velocidad\<close> and
  \<open>presion_velocidad_media\<close> both bound to the velocity pressure at the mean roof height
  and \<open>gcpi\<close> bound to the property. The constructor evaluates \<open>self.gcpi\<close> to build it,
  so an exception of \<open>gcpi\<close> is an exception of the whole.
\<close>

definition presion_media_parcial ::
  "CubiertaSprfvMetodoDireccional \<Rightarrow> real \<Rightarrow> real \<Rightarrow> bool \<Rightarrow> error + PresionesEdificio" where
  "presion_media_parcial self cp factor_rafaga considerar_presion_minima =
     (case gcpi self of
        Inl e \<Rightarrow> Inl e
      | Inr g \<Rightarrow>
          Inr (presiones (presion_velocidad_media self) cp factor_rafaga
                 (presion_velocidad_media self) g considerar_presion_minima))"

text \<open>
  \<open>MixinCr._presiones_componentes\<close>, on the value \<open>valores_cp\<close> that \<open>self.cp()\<close>
  returned: \<open>None\<close>, or a dictionary from names to dictionaries from zones to
  coefficients, here association lists in the order of iteration.
\<close>

definition presiones_componentes ::
  "CubiertaSprfvMetodoDireccional \<Rightarrow> ('n \<times> ('z \<times> real) list) list option
     \<Rightarrow> error + ('n \<times> ('z \<times> PresionesEdificio) list) list option" where
  "presiones_componentes self valores_cp =
     (case gcpi self of
        Inl e \<Rightarrow> Inl e
      | Inr g \<Rightarrow>
          (case valores_cp of
             None \<Rightarrow> Inr None
           | Some d \<Rightarrow>
               Inr (Some (map (\<lambda>(nombre, zonas).
                  (nombre, map (\<lambda>(zona, valor_cp).
                     (zona, presiones (presion_velocidad_media self) valor_cp 1
                              (presion_velocidad_media self) g True)) zonas)) d))))"

text \<open>
  \<open>AleroSprfvMetodoDireccional._presiones\<close>, the override for eaves: one pressure, with
  no internal term.
\<close>

definition presiones_alero :: "real \<Rightarrow> real \<Rightarrow> real \<Rightarrow> bool \<Rightarrow> real" where
  "presiones_alero presion_velocidad cp factor_rafaga considerar_presion_minima =
     (let presion = presion_velocidad * factor_rafaga * cp
      in if considerar_presion_minima then presion_minima presion else presion)"

subsection \<open>Gust-effect factor (sse102/cirsoc/factores.py, class Rafaga)\<close>

text \<open>The named tuple \<open>_Constantes\<close> and the table \<open>_constantes_exposicion\<close>.\<close>

record Constantes =
  alfa :: real
  zg :: real
  a_hat :: real
  b_hat :: real
  alpha_bar :: real
  b_bar :: real
  c :: real
  le :: real
  ep_bar :: real
  zmin :: real

fun constantes_exposicion :: "CategoriaExposicion \<Rightarrow> Constantes" where
  "constantes_exposicion A =
     \<lparr>alfa = 5, zg = 457, a_hat = 1 / 5, b_hat = 0.64, alpha_bar = 1 / 3, b_bar = 0.3,
      c = 0.45, le = 55, ep_bar = 1 / 2, zmin = 18.3\<rparr>"
| "constantes_exposicion B =
     \<lparr>alfa = 7, zg = 366, a_hat = 1 / 7, b_hat = 0.84, alpha_bar = 1 / 4, b_bar = 0.45,
      c = 0.3, le = 98, ep_bar = 1 / 3, zmin = 9.2\<rparr>"
| "constantes_exposicion C =
     \<lparr>alfa = 9.5, zg = 274, a_hat = 1 / 9.5, b_hat = 1, alpha_bar = 1 / 6.5, b_bar = 0.65,
      c = 0.2, le = 152, ep_bar = 1 / 5, zmin = 4.6\<rparr>"
| "constantes_exposicion D =
     \<lparr>alfa = 11.5, zg = 213, a_hat = 1 / 11.5, b_hat = 1.07, alpha_bar = 1 / 9, b_bar = 0.8,
      c = 0.15, le = 198, ep_bar = 1 / 8, zmin = 2.1\<rparr>"

text \<open>The arguments of the constructor of \<open>Rafaga\<close>, which it stores as they are.\<close>

record Rafaga =
  ancho :: real
  longitud :: real
  altura :: real
  altura_rafaga :: real
  velocidad :: real
  frecuencia :: real
  beta :: real
  flexibilidad :: Flexibilidad
  factor_g_simplificado :: bool
  categoria_exp :: CategoriaExposicion

definition constantes_exp_terreno :: "Rafaga \<Rightarrow> Constantes" where
  "constantes_exp_terreno self = constantes_exposicion (Rafaga.categoria_exp self)"

text \<open>The named tuple \<open>ParametrosRafaga\<close>; \<open>gr\<close> and \<open>r\<close> are \<open>None\<close> for a rigid structure.\<close>

record ParametrosRafaga =
  z :: real
  iz :: real
  lz :: real
  gr :: "real option"
  r :: "real option"

text \<open>One reduced frequency of the tuple \<open>ri\<close>.\<close>

definition ri :: "real \<Rightarrow> real" where
  "ri j = (if j > 0 then 1 / j - ((1 - exp (- 2 * j)) / (2 * j\<^sup>2)) else 1)"

text \<open>
  \<open>Rafaga.parametros\<close>. \<open>z\<close> is at least \<open>zmin\<close>, which is positive, so the powers
  of \<open>10 / z\<close> and \<open>z / 10\<close> are real. In the flexible branch the exceptions are in the
  order of the source: \<open>math.log\<close> of a non-positive number, the division by
  \<open>(2 * log) ** 0.5\<close>, by \<open>vz\<close>, by \<open>(1 + 10.3 * n1) ** (5 / 3)\<close> and by \<open>beta\<close>.
  A negative base of one of the three fractional powers makes \<open>gr\<close> or \<open>r\<close> complex
  without raising, and the result is \<open>ComplexResult\<close>.
\<close>

definition Rafaga_parametros :: "Rafaga \<Rightarrow> error + ParametrosRafaga" where
  "Rafaga_parametros self =
     (let k = constantes_exp_terreno self;
          z' = max (altura_rafaga self) (zmin k);
          iz' = c k * ((10 / z') powr (1 / 6));
          lz' = le k * ((z' / 10) powr ep_bar k)
      in if flexibilidad self = FLEXIBLE then
           (if 3600 * frecuencia self \<le> 0 then Inl ValueError
            else
              let l2 = 2 * ln (3600 * frecuencia self);
                  vz = b_bar k * ((z' / 10) powr alpha_bar k) * Rafaga.velocidad self;
                  n1 = frecuencia self * lz' / vz;
                  rn = 7.47 * n1 / ((1 + 10.3 * n1) powr (5 / 3));
                  nh = 4.6 * frecuencia self * altura self / vz;
                  nb = 4.6 * frecuencia self * Rafaga.ancho self / vz;
                  nl = 15.4 * frecuencia self * Rafaga.longitud self / vz;
                  radicando = rn * ri nh * ri nb * (0.53 + 0.47 * ri nl) / beta self
              in if l2 = 0 then Inl ZeroDivisionError
                 else if vz = 0 then Inl ZeroDivisionError
                 else if 1 + 10.3 * n1 = 0 then Inl ZeroDivisionError
                 else if beta self = 0 then Inl ZeroDivisionError
                 else if l2 < 0 \<or> 1 + 10.3 * n1 < 0 \<or> radicando < 0 then Inl ComplexResult
                 else Inr \<lparr>z = z', iz = iz', lz = lz',
                           gr = Some (sqrt l2 + 0.577 / sqrt l2), r = Some (sqrt radicando)\<rparr>)
         else Inr \<lparr>z = z', iz = iz', lz = lz', gr = None, r = None\<rparr>)"

text \<open>
  \<open>Rafaga.factor_q\<close>. \<open>lz\<close> is positive; a negative \<open>longitud + altura\<close> is a negative
  base of the power \<open>0.63\<close>.
\<close>

definition Rafaga_factor_q :: "Rafaga \<Rightarrow> error + real" where
  "Rafaga_factor_q self =
     (case Rafaga_parametros self of
        Inl e \<Rightarrow> Inl e
      | Inr p \<Rightarrow>
          if (Rafaga.longitud self + altura self) / lz p < 0 then Inl ComplexResult
          else Inr (sqrt (1 / (1 + 0.63 * ((Rafaga.longitud self + altura self) / lz p) powr 0.63))))"

definition Rafaga_rigida :: "Rafaga \<Rightarrow> error + real" where
  "Rafaga_rigida self =
     (case Rafaga_parametros self of
        Inl e \<Rightarrow> Inl e
      | Inr p \<Rightarrow>
          (case Rafaga_factor_q self of
             Inl e \<Rightarrow> Inl e
           | Inr q \<Rightarrow> Inr (((1 + 1.7 * 3.4 * iz p * q) / (1 + 1.7 * 3.4 * iz p)) * 0.925)))"

text \<open>
  \<open>Rafaga._flexible\<close>. For a rigid structure \<open>gr\<close> and \<open>r\<close> are \<open>None\<close> and their
  product raises \<open>TypeError\<close>; \<open>factor\<close> never calls it then.
\<close>

definition Rafaga_flexible :: "Rafaga \<Rightarrow> error + real" where
  "Rafaga_flexible self =
     (case Rafaga_parametros self of
        Inl e \<Rightarrow> Inl e
      | Inr p \<Rightarrow>
          (case Rafaga_factor_q self of
             Inl e \<Rightarrow> Inl e
           | Inr q \<Rightarrow>
               (case (gr p, r p) of
                  (Some g, Some r') \<Rightarrow>
                    Inr (((1 + 1.7 * iz p * sqrt ((3.4 * q)\<^sup>2 + (g * r')\<^sup>2))
                          / (1 + 1.7 * 3.4 * iz p)) * 0.925)
                | _ \<Rightarrow> Inl TypeError)))"

definition Rafaga_factor :: "Rafaga \<Rightarrow> error + real" where
  "Rafaga_factor self =
     (if factor_g_simplificado self then Inr 0.85
      else if flexibilidad self = FLEXIBLE then Rafaga_flexible self
      else Rafaga_rigida self)"

subsection \<open>Topographic factor (sse102/cirsoc/factores.py, class Topografia)\<close>

text \<open>\<open>EscalarOArray\<close>: one height, or a numpy array of heights.\<close>

datatype EscalarOArray = Escalar real | Array "real list"

record Topografia =
  categoria_exp :: CategoriaExposicion
  considerar_topografia :: bool
  tipo_terreno :: TipoTerrenoTopografia
  altura_terreno :: real
  distancia_cresta :: real
  distancia_barlovento_sotavento :: real
  direccion :: DireccionTopografia
  alturas :: EscalarOArray











subsection \<open>Component coefficients (zonda/cirsoc/cp/edificio.py)\<close>

text \<open>
  \<open>calcular_cp_componente\<close>, on the pairs \<open>cps\<close> and \<open>areas\<close>. The quotient of the
  areas raises for a first area of zero, \<open>log10\<close> raises \<open>ValueError\<close> for a
  non-positive argument, and the division by the logarithm raises when it is zero.
\<close>

definition calcular_cp_componente :: "real \<times> real \<Rightarrow> real \<times> real \<Rightarrow> real \<Rightarrow> error + real" where
  "calcular_cp_componente cps areas area_componente =
     (let primer_cp = fst cps; ultimo_cp = snd cps;
          primer_area = fst areas; ultima_area = snd areas
      in if area_componente \<le> primer_area then Inr primer_cp
         else if area_componente \<ge> ultima_area then Inr ultimo_cp
         else if primer_area = 0 then Inl ZeroDivisionError
         else if ultima_area / primer_area \<le> 0 then Inl ValueError
         else if log 10 (ultima_area / primer_area) = 0 then Inl ZeroDivisionError
         else if area_componente / primer_area \<le> 0 then Inl ValueError
         else Inr (primer_cp
                   + (ultimo_cp - primer_cp) / log 10 (ultima_area / primer_area)
                     * log 10 (area_componente / primer_area)))"

subsection \<open>Isolated roofs (zonda/cirsoc/cp/aisladas.py)\<close>

record CubiertaAislada =
  tipo_cubierta :: TipoCubierta
  angulo :: real
  relacion_bloqueo :: real
  posicion_bloqueo :: PosicionBloqueoCubierta


subsection \<open>Signs (zonda/cirsoc/cp/cartel.py)\<close>

text \<open>
  \<open>np.interp(x, xp, fp)\<close> for an increasing \<open>xp\<close> and an \<open>fp\<close> of the same length, both
  non-empty, as the two tables of this module are: the last value right of the last
  point, the first value left of the first point, and in between the line through the
  two points that enclose \<open>x\<close>.
\<close>

fun interp_tramo :: "real \<Rightarrow> real list \<Rightarrow> real list \<Rightarrow> real" where
  "interp_tramo x (x0 # x1 # xp) (f0 # f1 # fp) =
     (if x < x1 then (f1 - f0) / (x1 - x0) * (x - x0) + f0
      else interp_tramo x (x1 # xp) (f1 # fp))"
| "interp_tramo x xp (f0 # fp) = f0"
| "interp_tramo x xp [] = 0"

definition np_interp :: "real \<Rightarrow> real list \<Rightarrow> real list \<Rightarrow> real" where
  "np_interp x xp fp =
     (if x > last xp then last fp
      else if x < hd xp then hd fp
      else interp_tramo x xp fp)"

record Cartel =
  altura_inferior :: real
  altura_neta :: real
  ancho :: real
  es_parapeto :: bool

definition sobre_nivel_terreno :: "Cartel \<Rightarrow> bool" where
  "sobre_nivel_terreno self =
     (if altura_inferior self < 0.25 * altura_neta self \<or> es_parapeto self then False else True)"

text \<open>The tuples \<open>m_n\<close> and \<open>cfs\<close> of \<open>_sobre_nivel_terreno\<close> and of \<open>_a_nivel_terreno\<close>.\<close>

definition m_n_sobre_nivel :: "real list" where
  "m_n_sobre_nivel = [6, 10, 16, 20, 40, 60, 80]"

definition m_n_a_nivel :: "real list" where
  "m_n_a_nivel = [3, 5, 8, 10, 20, 30, 40]"

definition cfs :: "real list" where
  "cfs = [1.2, 1.3, 1.4, 1.5, 1.75, 1.85, 2]"

text \<open>\<open>_sobre_nivel_terreno\<close>: the quotient of two floats raises for a divisor of zero.\<close>

definition Cartel_sobre_nivel_terreno :: "Cartel \<Rightarrow> error + real" where
  "Cartel_sobre_nivel_terreno self =
     (let m = max (altura_neta self) (Cartel.ancho self);
          n = min (altura_neta self) (Cartel.ancho self)
      in if n = 0 then Inl ZeroDivisionError
         else Inr (np_interp (m / n) m_n_sobre_nivel cfs))"

definition Cartel_a_nivel_terreno :: "Cartel \<Rightarrow> error + real" where
  "Cartel_a_nivel_terreno self =
     (if Cartel.ancho self = 0 then Inl ZeroDivisionError
      else Inr (np_interp (altura_neta self / Cartel.ancho self) m_n_a_nivel cfs))"

definition Cartel_cf :: "Cartel \<Rightarrow> error + real" where
  "Cartel_cf self =
     (if sobre_nivel_terreno self then Cartel_sobre_nivel_terreno self
      else Cartel_a_nivel_terreno self)"

subsection \<open>Roof geometry (zonda/cirsoc/geometria/cubiertas.py)\<close>

record Cubierta =
  ancho :: real
  longitud :: real
  altura_alero :: real
  altura_cumbrera :: real
  tipo_cubierta :: TipoCubierta
  parapeto :: real
  alero :: real
  altura_bloqueo :: real
  posicion_bloqueo :: PosicionBloqueoCubierta

text \<open>\<open>Cubierta.__init__\<close>: a flat roof takes the eave height for its ridge height.\<close>

definition Cubierta_init ::
  "real \<Rightarrow> real \<Rightarrow> real \<Rightarrow> real \<Rightarrow> TipoCubierta \<Rightarrow> real \<Rightarrow> real \<Rightarrow> real
     \<Rightarrow> PosicionBloqueoCubierta \<Rightarrow> Cubierta" where
  "Cubierta_init ancho' longitud' altura_alero' altura_cumbrera' tipo_cubierta' parapeto'
     alero' altura_bloqueo' posicion_bloqueo' =
     \<lparr>ancho = ancho', longitud = longitud', altura_alero = altura_alero',
      altura_cumbrera = (if tipo_cubierta' = PLANA then altura_alero' else altura_cumbrera'),
      tipo_cubierta = tipo_cubierta', parapeto = parapeto', alero = alero',
      altura_bloqueo = altura_bloqueo', posicion_bloqueo = posicion_bloqueo'\<rparr>"

text \<open>\<open>Cubierta.angulo\<close>; \<open>math.degrees\<close> multiplies by \<open>180 / pi\<close>.\<close>

definition Cubierta_angulo :: "Cubierta \<Rightarrow> error + real" where
  "Cubierta_angulo self =
     (if Cubierta.ancho self = 0 then Inl ZeroDivisionError
      else
        let pendiente = (altura_cumbrera self - altura_alero self) / Cubierta.ancho self;
            pendiente = (if Cubierta.tipo_cubierta self = DOS_AGUAS then pendiente * 2 else pendiente)
        in Inr (arctan pendiente * 180 / pi))"

definition Cubierta_altura_media :: "Cubierta \<Rightarrow> error + real" where
  "Cubierta_altura_media self =
     (case Cubierta_angulo self of
        Inl e \<Rightarrow> Inl e
      | Inr a \<Rightarrow>
          if a \<le> 10 then Inr (altura_alero self)
          else Inr ((altura_alero self + altura_cumbrera self) / 2))"

subsection \<open>Height arrays (zonda/cirsoc/geometria/utils_alturas.py)\<close>



section \<open>Properties\<close>

subsection \<open>Internal pressure and the minimum pressure\<close>

lemma factor_reduccion_gcpi_le1:
  "factor_reduccion_gcpi self = Inr f \<Longrightarrow> f \<le> 1"
  by (auto simp: factor_reduccion_gcpi_def split: if_splits option.splits)

lemma factor_reduccion_gcpi_ne1:
  "factor_reduccion_gcpi self = Inr f \<Longrightarrow> f \<noteq> 1 \<Longrightarrow>
     cerramiento self = PARCIALMENTE_CERRADO \<and> reducir_gcpi self"
  by (auto simp: factor_reduccion_gcpi_def split: if_splits option.splits)

text \<open>
  The reduction factor, and with it \<open>gcpi\<close>, returns a value whenever the volume and the
  openings, where both are given, are not negative.
\<close>

lemma factor_reduccion_gcpi_returns:
  assumes "\<And>v a. volumen_interno self = Some v \<Longrightarrow> aberturas_totales self = Some a
             \<Longrightarrow> 0 \<le> v \<and> 0 \<le> a"
  shows "\<exists>f. factor_reduccion_gcpi self = Inr f"
proof (cases "volumen_interno self")
  case None
  then show ?thesis by (simp add: factor_reduccion_gcpi_def)
next
  case (Some v)
  show ?thesis
  proof (cases "aberturas_totales self")
    case None
    with Some show ?thesis by (simp add: factor_reduccion_gcpi_def)
  next
    case (Some a)
    with \<open>volumen_interno self = Some v\<close> assms have "0 \<le> v" "0 \<le> a" by auto
    then have "0 \<le> v / 6954 / a" by simp
    then have "1 + v / 6954 / a > 0" by linarith
    with Some \<open>volumen_interno self = Some v\<close> show ?thesis
      by (simp add: factor_reduccion_gcpi_def)
  qed
qed

lemma gcpi_returns:
  assumes "\<And>v a. volumen_interno self = Some v \<Longrightarrow> aberturas_totales self = Some a
             \<Longrightarrow> 0 \<le> v \<and> 0 \<le> a"
  shows "\<exists>g. gcpi self = Inr g"
  using factor_reduccion_gcpi_returns [of self] assms by (auto simp: gcpi_def)

text \<open>
  Claim C1, as the code has it. Whenever \<open>gcpi\<close> returns a value \<open>g\<close>: without the
  minimum-pressure check \<open>_presiones\<close> returns the pair \<open>(q - qh * g, q + qh * g)\<close> for
  \<open>q = qz * G * Cp\<close>; with the check it returns \<open>presion_minima\<close> of each member of that
  pair; and \<open>g\<close> is the entry of the enclosure table (0.18 closed, 0.55 partially
  closed, 0.0 open) times a reduction factor that is at most 1 and differs from 1 only
  for a partially closed building with the reduction requested.
\<close>

theorem presiones_par_gcpi:
  assumes "gcpi self = Inr g"
  shows "presiones qz valor_cp fr qh g False =
           \<lparr>pos = qz * fr * valor_cp - qh * g, neg = qz * fr * valor_cp + qh * g\<rparr>
       \<and> presiones qz valor_cp fr qh g True =
           \<lparr>pos = presion_minima (qz * fr * valor_cp - qh * g),
            neg = presion_minima (qz * fr * valor_cp + qh * g)\<rparr>
       \<and> (\<exists>f. factor_reduccion_gcpi self = Inr f
              \<and> g = (case cerramiento self of CERRADO \<Rightarrow> 0.18
                        | PARCIALMENTE_CERRADO \<Rightarrow> 0.55 | ABIERTO \<Rightarrow> 0.0) * f
              \<and> f \<le> 1
              \<and> (f \<noteq> 1 \<longrightarrow> cerramiento self = PARCIALMENTE_CERRADO \<and> reducir_gcpi self))"
proof -
  from assms obtain f where f: "factor_reduccion_gcpi self = Inr f"
    and g: "g = cerramiento_gcpi (cerramiento self) * f"
    by (auto simp: gcpi_def split: sum.splits)
  have "cerramiento_gcpi (cerramiento self) =
          (case cerramiento self of CERRADO \<Rightarrow> 0.18
             | PARCIALMENTE_CERRADO \<Rightarrow> 0.55 | ABIERTO \<Rightarrow> 0.0)"
    by (cases "cerramiento self") simp_all
  with f g factor_reduccion_gcpi_le1 [OF f] factor_reduccion_gcpi_ne1 [OF f]
  show ?thesis by (simp add: presiones_def Let_def)
qed

theorem presiones_par_gcpi_witness:
  "gcpi \<lparr>cerramiento = CERRADO, reducir_gcpi = False, aberturas_totales = None,
         volumen_interno = None, presion_velocidad_media = 1000\<rparr> = Inr 0.18
   \<and> presiones 1200 (- 0.5) 0.85 1000 0.18 False = \<lparr>pos = - 690, neg = - 330\<rparr>"
  using presiones_par_gcpi [of "\<lparr>cerramiento = CERRADO, reducir_gcpi = False,
         aberturas_totales = None, volumen_interno = None, presion_velocidad_media = 1000\<rparr>"
         "0.18" 1200 "- 0.5" "0.85" 1000]
  by (simp add: gcpi_def factor_reduccion_gcpi_def)

text \<open>
  Claim C1 as stated fails where the minimum-pressure check is requested, as it is for
  components and cladding: for \<open>qz = qh = 1000\<close>, \<open>G = 1\<close>, \<open>Cp = 0.1\<close> and
  \<open>GCpi = 0\<close> the pair is \<open>(500, 500)\<close> and not \<open>(100, 100)\<close>.
\<close>

theorem presiones_con_minima_counterexample:
  "presiones 1000 0.1 1 1000 0 True = \<lparr>pos = 500, neg = 500\<rparr>
   \<and> presiones 1000 0.1 1 1000 0 True
       \<noteq> \<lparr>pos = 1000 * 1 * 0.1 - 1000 * 0, neg = 1000 * 1 * 0.1 + 1000 * 0\<rparr>"
  by (simp add: presiones_def presion_minima_def)

text \<open>
  Away from zero \<open>presion_minima\<close> is the floor that its docstring states, the greater
  of the minimum pressure and the pressure, with the sign kept; \<open>_presiones_componentes\<close>
  applies it to both members of every pair, and an eave applies it when the check is
  requested.
\<close>

lemma presion_minima_floor:
  assumes "p \<noteq> 0" and "gcpi self = Inr g"
  shows "sgn (presion_minima p) = sgn p \<and> \<bar>presion_minima p\<bar> = max 500 \<bar>p\<bar>
       \<and> presiones_componentes self (Some d) =
           Inr (Some (map (\<lambda>(nombre, zonas). (nombre, map (\<lambda>(zona, valor_cp).
             (zona, \<lparr>pos = presion_minima (presion_velocidad_media self * 1 * valor_cp
                                            - presion_velocidad_media self * g),
                     neg = presion_minima (presion_velocidad_media self * 1 * valor_cp
                                            + presion_velocidad_media self * g)\<rparr>)) zonas)) d))
       \<and> presiones_alero q valor_cp' fr True = presion_minima (q * fr * valor_cp')"
  using assms
  by (auto simp: presion_minima_def sgn_mult abs_mult max_def sgn_if presiones_componentes_def
        presiones_def presiones_alero_def Let_def)

lemma presion_minima_floor_ejemplo:
  "(100::real) \<noteq> 0
   \<and> gcpi \<lparr>cerramiento = CERRADO, reducir_gcpi = False, aberturas_totales = None,
           volumen_interno = None, presion_velocidad_media = 1000\<rparr> = Inr 0.18
   \<and> sgn (presion_minima 100) = sgn (100::real) \<and> \<bar>presion_minima 100\<bar> = 500
   \<and> presiones_componentes \<lparr>cerramiento = CERRADO, reducir_gcpi = False,
        aberturas_totales = None, volumen_interno = None, presion_velocidad_media = 1000\<rparr>
        (Some [(0::nat, [(1::nat, 0.1)])])
      = Inr (Some [(0, [(1, \<lparr>pos = - 500, neg = 500\<rparr>)])])"
  using presion_minima_floor [of 100 "\<lparr>cerramiento = CERRADO, reducir_gcpi = False,
       aberturas_totales = None, volumen_interno = None, presion_velocidad_media = 1000\<rparr>" "0.18"
       "[(0::nat, [(1::nat, 0.1)])]" 0 0 0]
  by (simp add: gcpi_def factor_reduccion_gcpi_def presion_minima_def)

text \<open>
  Claim C6: every pressure of components and cladding has its magnitude floored at the
  minimum of 500. The code misses the floor at the pressure 0: the sign of zero is zero,
  so \<open>presion_minima 0\<close> is 0 and its magnitude is not \<open>max 500 \<bar>0\<bar>\<close>. A component
  with a coefficient of 0 on an open building, whose \<open>GCpi\<close> is 0, gets the pair
  \<open>(0, 0)\<close> from \<open>_presiones\<close> with the check requested. The wall components of
  \<open>_presiones_cr_caso_b\<close> miss it as well: that method calls
  \<open>_presiones(qi, valor_gcp, 1, self.gcpi, self.presion_velocidad_media)\<close> and leaves the
  check at its default, so that for \<open>qi = 1000\<close>, a coefficient of 0.1, \<open>GCpi = 0.18\<close>
  and a mean velocity pressure of 1000 the pair is \<open>(-80, 280)\<close>, below the minimum.
\<close>

theorem presion_minima_cero:
  "presion_minima 0 = 0
   \<and> \<bar>presion_minima 0\<bar> \<noteq> max 500 \<bar>0::real\<bar>
   \<and> presiones 1000 0 1 1000 0 True = \<lparr>pos = 0, neg = 0\<rparr>
   \<and> presiones 1000 0.1 1 0.18 1000 False = \<lparr>pos = - 80, neg = 280\<rparr>"
  by (simp add: presion_minima_def presiones_def)

text \<open>
  Claim C10. For a partially closed building with the reduction requested, the
  reduction factor is exactly 1, and nothing is divided, when the total opening area is
  zero or not given or the internal volume is not given.
\<close>

theorem factor_reduccion_gcpi_sin_aberturas:
  assumes "reducir_gcpi self" and "cerramiento self = PARCIALMENTE_CERRADO"
    and "aberturas_totales self = Some 0 \<or> aberturas_totales self = None
         \<or> volumen_interno self = None"
  shows "factor_reduccion_gcpi self = Inr 1"
  using assms by (auto simp: factor_reduccion_gcpi_def split: option.splits)

theorem factor_reduccion_gcpi_sin_aberturas_witness:
  "reducir_gcpi \<lparr>cerramiento = PARCIALMENTE_CERRADO, reducir_gcpi = True,
       aberturas_totales = Some 0, volumen_interno = Some 5000,
       presion_velocidad_media = 1000\<rparr>
   \<and> factor_reduccion_gcpi \<lparr>cerramiento = PARCIALMENTE_CERRADO, reducir_gcpi = True,
       aberturas_totales = Some 0, volumen_interno = Some 5000,
       presion_velocidad_media = 1000\<rparr> = Inr 1"
  using factor_reduccion_gcpi_sin_aberturas [of "\<lparr>cerramiento = PARCIALMENTE_CERRADO,
       reducir_gcpi = True, aberturas_totales = Some 0, volumen_interno = Some 5000,
       presion_velocidad_media = 1000\<rparr>"]
  by simp

subsection \<open>Topographic factor\<close>










subsection \<open>Component coefficients\<close>

text \<open>
  Claim C3. For break-points \<open>(a1, cp1)\<close> and \<open>(a2, cp2)\<close> with \<open>0 < a1 < a2\<close> and
  every area \<open>a\<close>, the interpolation returns \<open>cp1\<close> for \<open>a \<le> a1\<close>, \<open>cp2\<close> for
  \<open>a \<ge> a2\<close>, and \<open>cp1 + (cp2 - cp1) / log10 (a2 / a1) * log10 (a / a1)\<close> in between;
  it raises nothing.
\<close>

theorem calcular_cp_componente_log:
  assumes "0 < a1" and "a1 < a2"
  shows "calcular_cp_componente (cp1, cp2) (a1, a2) a =
           Inr (if a \<le> a1 then cp1
                else if a \<ge> a2 then cp2
                else cp1 + (cp2 - cp1) / log 10 (a2 / a1) * log 10 (a / a1))"
proof -
  from assms have "1 < a2 / a1" by simp
  then have "0 < log 10 (a2 / a1)" by simp
  then have l: "log 10 (a2 / a1) \<noteq> 0" by linarith
  from assms have q: "\<not> a2 / a1 \<le> 0" by (simp add: not_le)
  from assms have n: "a1 \<noteq> 0" by simp
  consider "a \<le> a1" | "a1 < a" "a2 \<le> a" | "a1 < a" "a < a2" by linarith
  then show ?thesis
  proof cases
    case 1
    then show ?thesis by (simp add: calcular_cp_componente_def)
  next
    case 2
    then show ?thesis by (simp add: calcular_cp_componente_def)
  next
    case 3
    with assms have "\<not> a / a1 \<le> 0" by (simp add: not_le)
    with 3 l q n show ?thesis by (simp add: calcular_cp_componente_def)
  qed
qed

theorem calcular_cp_componente_log_witness:
  "(0::real) < 1 \<and> (1::real) < 10
   \<and> calcular_cp_componente (- 1, - 0.8) (1, 10) 0.5 = Inr (- 1)
   \<and> calcular_cp_componente (- 1, - 0.8) (1, 10) 20 = Inr (- 0.8)
   \<and> calcular_cp_componente (- 1, - 0.8) (1, 10) 10 = Inr (- 0.8)
   \<and> calcular_cp_componente (- 1, - 0.8) (1, 10) 5 = Inr (- 1 + 0.2 * log 10 5)"
  using calcular_cp_componente_log [of 1 10 "- 1" "- 0.8" "0.5"]
    calcular_cp_componente_log [of 1 10 "- 1" "- 0.8" 20]
    calcular_cp_componente_log [of 1 10 "- 1" "- 0.8" 10]
    calcular_cp_componente_log [of 1 10 "- 1" "- 0.8" 5]
  by simp

subsection \<open>Isolated roofs\<close>




subsection \<open>Gust-effect factor\<close>

text \<open>
  Claim C5. With the simplified flag set the gust-effect factor is exactly 0.85, for
  every width, length, height, wind speed, frequency, damping ratio, flexibility and
  exposure category; also where the full computation would raise.
\<close>

theorem Rafaga_factor_simplificado:
  "factor_g_simplificado self \<Longrightarrow> Rafaga_factor self = Inr 0.85"
  by (simp add: Rafaga_factor_def)

theorem Rafaga_factor_simplificado_witness:
  "factor_g_simplificado \<lparr>Rafaga.ancho = 30, Rafaga.longitud = 60, altura = 11, altura_rafaga = 6.6,
       Rafaga.velocidad = 45, frecuencia = 0, beta = 0, flexibilidad = FLEXIBLE,
       factor_g_simplificado = True, Rafaga.categoria_exp = C\<rparr>
   \<and> Rafaga_factor \<lparr>Rafaga.ancho = 30, Rafaga.longitud = 60, altura = 11, altura_rafaga = 6.6,
       Rafaga.velocidad = 45, frecuencia = 0, beta = 0, flexibilidad = FLEXIBLE,
       factor_g_simplificado = True, Rafaga.categoria_exp = C\<rparr> = Inr 0.85
   \<and> Rafaga_factor \<lparr>Rafaga.ancho = 30, Rafaga.longitud = 60, altura = 11, altura_rafaga = 6.6,
       Rafaga.velocidad = 45, frecuencia = 0, beta = 0, flexibilidad = FLEXIBLE,
       factor_g_simplificado = False, Rafaga.categoria_exp = C\<rparr> = Inl ValueError"
  using Rafaga_factor_simplificado [of "\<lparr>Rafaga.ancho = 30, Rafaga.longitud = 60, altura = 11,
       altura_rafaga = 6.6, Rafaga.velocidad = 45, frecuencia = 0, beta = 0, flexibilidad = FLEXIBLE,
       factor_g_simplificado = True, Rafaga.categoria_exp = C\<rparr>"]
  by (simp add: Rafaga_factor_def Rafaga_flexible_def Rafaga_parametros_def Let_def)

subsection \<open>Signs\<close>

lemma np_interp_a_nivel_cotas:
  "1.2 \<le> np_interp x m_n_a_nivel cfs \<and> np_interp x m_n_a_nivel cfs \<le> 2"
  by (simp add: np_interp_def m_n_a_nivel_def cfs_def) (auto simp: field_simps)

lemma np_interp_sobre_nivel_cotas:
  "1.2 \<le> np_interp x m_n_sobre_nivel cfs \<and> np_interp x m_n_sobre_nivel cfs \<le> 2"
  by (simp add: np_interp_def m_n_sobre_nivel_def cfs_def) (auto simp: field_simps)

text \<open>
  Claim C7, as the code has it. For a sign that is not a parapet and has its lower
  height at or above a quarter of its net height, \<open>Cf\<close> is interpolated in the
  elevated table at \<open>max(h, w) / min(h, w)\<close>; for a lower sign, and for every parapet,
  it is interpolated in the ground-level table at \<open>h / w\<close>. Every \<open>Cf\<close> returned lies
  in \<open>[1.2, 2.0]\<close>. For a net height of 10, a width of 5 and a lower height of 0 it is
  the value of the ground-level table at 2, which is 1.2.
\<close>

theorem Cartel_cf_tablas:
  "(altura_inferior self \<ge> 0.25 * altura_neta self \<and> \<not> es_parapeto self
      \<and> min (altura_neta self) (Cartel.ancho self) \<noteq> 0 \<longrightarrow>
      Cartel_cf self =
        Inr (np_interp (max (altura_neta self) (Cartel.ancho self)
                        / min (altura_neta self) (Cartel.ancho self)) m_n_sobre_nivel cfs))
   \<and> ((altura_inferior self < 0.25 * altura_neta self \<or> es_parapeto self)
      \<and> Cartel.ancho self \<noteq> 0 \<longrightarrow>
      Cartel_cf self =
        Inr (np_interp (altura_neta self / Cartel.ancho self) m_n_a_nivel cfs))
   \<and> (\<forall>v. Cartel_cf self = Inr v \<longrightarrow> 1.2 \<le> v \<and> v \<le> 2)
   \<and> Cartel_cf \<lparr>altura_inferior = 0, altura_neta = 10, Cartel.ancho = 5,
                 es_parapeto = False\<rparr> = Inr (np_interp 2 m_n_a_nivel cfs)
   \<and> np_interp 2 m_n_a_nivel cfs = 1.2"
proof -
  have "np_interp 2 m_n_a_nivel cfs = 1.2"
    by (simp add: np_interp_def m_n_a_nivel_def cfs_def)
  moreover have "Cartel_cf self = Inr v \<Longrightarrow> 1.2 \<le> v \<and> v \<le> 2" for v
    using np_interp_a_nivel_cotas np_interp_sobre_nivel_cotas
    by (auto simp: Cartel_cf_def Cartel_sobre_nivel_terreno_def Cartel_a_nivel_terreno_def
          Let_def split: if_splits)
  ultimately show ?thesis
    by (auto simp: Cartel_cf_def sobre_nivel_terreno_def Cartel_sobre_nivel_terreno_def
          Cartel_a_nivel_terreno_def Let_def)
qed

theorem Cartel_cf_tablas_witness:
  "Cartel_cf \<lparr>altura_inferior = 3, altura_neta = 2, Cartel.ancho = 24,
              es_parapeto = False\<rparr> = Inr (4 / 3)
   \<and> Cartel_cf \<lparr>altura_inferior = 0, altura_neta = 12, Cartel.ancho = 2,
              es_parapeto = False\<rparr> = Inr (4 / 3)
   \<and> Cartel_cf \<lparr>altura_inferior = 3, altura_neta = 2, Cartel.ancho = 24,
              es_parapeto = True\<rparr> = Inr 1.2"
  using Cartel_cf_tablas [of "\<lparr>altura_inferior = 3, altura_neta = 2, Cartel.ancho = 24,
              es_parapeto = False\<rparr>"]
    Cartel_cf_tablas [of "\<lparr>altura_inferior = 0, altura_neta = 12, Cartel.ancho = 2,
              es_parapeto = False\<rparr>"]
    Cartel_cf_tablas [of "\<lparr>altura_inferior = 3, altura_neta = 2, Cartel.ancho = 24,
              es_parapeto = True\<rparr>"]
  by (simp add: np_interp_def m_n_a_nivel_def m_n_sobre_nivel_def cfs_def)

text \<open>
  Claim C7 as stated fails for the ground-level table, which is read at \<open>h / w\<close> and
  not at \<open>max(h, w) / min(h, w)\<close>: a sign on the ground of net height 5 and width 50
  has \<open>Cf = 1.2\<close>, the value at 0.1, and not 1.5, the value at 10.
\<close>

theorem Cartel_cf_a_nivel_counterexample:
  "Cartel_cf \<lparr>altura_inferior = 0, altura_neta = 5, Cartel.ancho = 50,
              es_parapeto = False\<rparr> = Inr 1.2
   \<and> np_interp (max 5 50 / min 5 50) m_n_a_nivel cfs = 1.5
   \<and> Cartel_cf \<lparr>altura_inferior = 0, altura_neta = 5, Cartel.ancho = 50,
              es_parapeto = False\<rparr> \<noteq> Inr (np_interp (max 5 50 / min 5 50) m_n_a_nivel cfs)"
  by (simp add: Cartel_cf_def sobre_nivel_terreno_def Cartel_a_nivel_terreno_def
        np_interp_def m_n_a_nivel_def cfs_def)

subsection \<open>Roof geometry\<close>

lemma arctan_dos_tercios: "10 < arctan (2 / 3) * 180 / pi"
proof -
  have "sqrt 3 * 2 > 3"
  proof -
    have "(3 / 2)\<^sup>2 < (3::real)" by (simp add: power2_eq_square)
    then have "sqrt ((3 / 2)\<^sup>2) < sqrt 3" by (simp only: real_sqrt_less_iff)
    then show ?thesis by simp
  qed
  then have "1 / sqrt 3 < (2::real) / 3" by (simp add: field_simps)
  then have "arctan (1 / sqrt 3) < arctan (2 / 3)" by (simp only: arctan_less_iff)
  moreover have "arctan (1 / sqrt 3) = pi / 6"
  proof -
    have "arctan (tan (pi / 6)) = pi / 6" by (rule arctan_tan) (use pi_gt_zero in auto)
    then show ?thesis by (simp add: tan_30)
  qed
  ultimately have "pi / 6 < arctan (2 / 3)" by simp
  then have "pi / 18 < arctan (2 / 3)" using pi_gt_zero by linarith
  then show ?thesis using pi_gt_zero by (simp add: field_simps)
qed

text \<open>
  Claim C8. For a roof of width other than zero the slope angle is the arc tangent, in
  degrees, of the rise over the width, doubled for a duo-pitch roof, and the mean roof
  height is the eave height when that angle is at most 10 and the mean of the eave and
  ridge heights otherwise. For a width of 30, an eave at 6, a ridge at 16 and a
  duo-pitch roof it is 11.
\<close>

theorem Cubierta_altura_media_angulo:
  assumes "Cubierta.ancho self \<noteq> 0"
  shows "Cubierta_angulo self =
           Inr (arctan ((if Cubierta.tipo_cubierta self = DOS_AGUAS then 2 else 1)
                        * ((altura_cumbrera self - altura_alero self) / Cubierta.ancho self))
                * 180 / pi)
       \<and> Cubierta_altura_media self =
           Inr (if arctan ((if Cubierta.tipo_cubierta self = DOS_AGUAS then 2 else 1)
                     * ((altura_cumbrera self - altura_alero self) / Cubierta.ancho self))
                   * 180 / pi \<le> 10
                then altura_alero self
                else (altura_alero self + altura_cumbrera self) / 2)
       \<and> Cubierta_altura_media (Cubierta_init 30 60 6 16 DOS_AGUAS 0 0 0 ALERO_BAJO) = Inr 11"
proof -
  have "Cubierta_altura_media (Cubierta_init 30 60 6 16 DOS_AGUAS 0 0 0 ALERO_BAJO) = Inr 11"
    using arctan_dos_tercios
    by (simp add: Cubierta_altura_media_def Cubierta_angulo_def Cubierta_init_def)
  with assms show ?thesis
    by (auto simp: Cubierta_altura_media_def Cubierta_angulo_def Let_def mult.commute)
qed

theorem Cubierta_altura_media_angulo_witness:
  "Cubierta.ancho (Cubierta_init 30 60 6 8 UN_AGUA 0 0 0 ALERO_BAJO) \<noteq> 0
   \<and> Cubierta_angulo (Cubierta_init 30 60 6 8 UN_AGUA 0 0 0 ALERO_BAJO)
       = Inr (arctan (1 / 15) * 180 / pi)
   \<and> Cubierta_altura_media (Cubierta_init 30 60 6 6 DOS_AGUAS 0 0 0 ALERO_BAJO) = Inr 6
   \<and> Cubierta_altura_media (Cubierta_init 30 60 6 16 PLANA 0 0 0 ALERO_BAJO) = Inr 6"
  using Cubierta_altura_media_angulo [of "Cubierta_init 30 60 6 8 UN_AGUA 0 0 0 ALERO_BAJO"]
    Cubierta_altura_media_angulo [of "Cubierta_init 30 60 6 6 DOS_AGUAS 0 0 0 ALERO_BAJO"]
    Cubierta_altura_media_angulo [of "Cubierta_init 30 60 6 16 PLANA 0 0 0 ALERO_BAJO"]
  by (simp add: Cubierta_init_def)

subsection \<open>Height arrays\<close>










end
